theory Spec2Isabelle
  imports Complex_Main
begin

text \<open>
  A shallow embedding of the city directory (\<open>CityService\<close>) and of the two
  variants of the weather component (\<open>WeatherComponent\<close>): each method and
  each subscriber or timer callback is a function on the fields it reads and
  writes, a thrown exception is an \<open>Inl\<close> result, and an asynchronous
  operation is the function that starts it together with the functions that
  run when it settles.
\<close>

section \<open>Strings\<close>

text \<open>
  A string is a \<open>char list\<close>: the bytes of its UTF-8 text. The three string
  primitives the program uses (\<open>toLowerCase\<close>, \<open>trim\<close>, \<open>split\<close>) and the
  regular expression class \<open>\s\<close> are modelled on the ASCII range: the upper-case
  letters are \<open>A\<close> to \<open>Z\<close>, white space is tab, line feed, vertical tab, form
  feed, carriage return and space. Every key, label and example the
  development evaluates lies in that range; bytes beyond it are left as
  they are and are not white space.
\<close>

definition lower_char :: "char \<Rightarrow> char" where
  "lower_char c =
     (case map_of (zip ''ABCDEFGHIJKLMNOPQRSTUVWXYZ'' ''abcdefghijklmnopqrstuvwxyz'') c of
        Some l \<Rightarrow> l
      | None \<Rightarrow> c)"

definition toLowerCase :: "string \<Rightarrow> string" where
  "toLowerCase s = map lower_char s"

definition isWhiteSpace :: "char \<Rightarrow> bool" where
  "isWhiteSpace c \<longleftrightarrow>
     c = CHR 0x09 \<or> c = CHR 0x0A \<or> c = CHR 0x0B \<or> c = CHR 0x0C \<or> c = CHR 0x0D \<or> c = CHR '' ''"

definition trim :: "string \<Rightarrow> string" where
  "trim s = rev (dropWhile isWhiteSpace (rev (dropWhile isWhiteSpace s)))"

text \<open>
  \<open>s.split(sep)\<close> for a one-character separator: the pieces between the
  occurrences of \<open>sep\<close>, so a string with \<open>k\<close> separators gives \<open>k + 1\<close>
  pieces and the empty string gives one empty piece.
\<close>

fun js_split :: "char \<Rightarrow> string \<Rightarrow> string list" where
  "js_split sep [] = [[]]"
| "js_split sep (c # cs) =
     (if c = sep then [] # js_split sep cs
      else (case js_split sep cs of
              [] \<Rightarrow> [[c]]
            | w # ws \<Rightarrow> (c # w) # ws))"

section \<open>CityService (src/app/services/city.service.ts)\<close>

text \<open>
  \<open>Number(...)\<close> is the host's conversion to a number; it is a parameter
  \<open>Number\<close> of the model, applied to \<open>Some s\<close> for a string and to \<open>None\<close>
  for \<open>undefined\<close> (a field missing from the row), with any result type
  \<open>'n\<close>.
\<close>

record 'n CityRecord =
  id_field :: string
  country :: string
  city :: string
  lat :: 'n
  lon :: 'n
  altitude :: 'n

record 'n Coordinates =
  lat :: 'n
  lon :: 'n

record 'n CityService =
  cities :: "'n CityRecord list"
  loaded :: bool

datatype error = TypeError

definition CityService_init :: "'n CityService" where
  "CityService_init = \<lparr> cities = [], loaded = False \<rparr>"

text \<open>
  The array destructuring \<open>const [id, country, city, lat, lon, altitude] =
  line.split(';')\<close> binds a missing position to \<open>undefined\<close>.
\<close>

definition element :: "'a list \<Rightarrow> nat \<Rightarrow> 'a option" where
  "element xs i = (if i < length xs then Some (xs ! i) else None)"

text \<open>
  The callback of the second \<open>map\<close> in \<open>parse\<close>. \<open>city.toLowerCase()\<close>
  throws a TypeError when \<open>city\<close> is \<open>undefined\<close>, that is when the row has
  fewer than three fields; with three or more, \<open>id\<close> and \<open>country\<close> are
  strings too. No field count is checked.
\<close>

definition parse_row :: "(string option \<Rightarrow> 'n) \<Rightarrow> string \<Rightarrow> error + 'n CityRecord" where
  "parse_row Number line =
     (let fields = js_split CHR '';'' line in
      case fields of
        i # co # ci # _ \<Rightarrow>
          Inr \<lparr> id_field = i, country = co, city = toLowerCase ci,
                CityRecord.lat = Number (element fields 3),
                CityRecord.lon = Number (element fields 4),
                altitude = Number (element fields 5) \<rparr>
      | _ \<Rightarrow> Inl TypeError)"

text \<open>\<open>Array.prototype.map\<close> with a callback that may throw: the first throw ends it.\<close>

fun map_throwing :: "('a \<Rightarrow> error + 'b) \<Rightarrow> 'a list \<Rightarrow> error + 'b list" where
  "map_throwing f [] = Inr []"
| "map_throwing f (x # xs) =
     (case f x of
        Inl e \<Rightarrow> Inl e
      | Inr y \<Rightarrow> (case map_throwing f xs of Inl e \<Rightarrow> Inl e | Inr ys \<Rightarrow> Inr (y # ys)))"

definition parse :: "(string option \<Rightarrow> 'n) \<Rightarrow> string \<Rightarrow> error + 'n CityRecord list" where
  "parse Number data =
     map_throwing (parse_row Number)
       (filter (\<lambda>line. line \<noteq> []) (map trim (drop 1 (js_split CHR 0x0A data))))"

text \<open>
  \<open>load\<close> returns at once when \<open>loaded\<close> is set; otherwise it issues one GET
  for the dataset. The model returns the service and the number of requests
  the call issued. \<open>load_next\<close> is the subscriber that receives the text: a
  throw inside \<open>parse\<close> leaves both fields as they were. The request has no
  error handler.
\<close>

definition load :: "'n CityService \<Rightarrow> 'n CityService \<times> nat" where
  "load svc = (if loaded svc then (svc, 0) else (svc, 1))"

definition load_next :: "(string option \<Rightarrow> 'n) \<Rightarrow> string \<Rightarrow> 'n CityService \<Rightarrow> error + 'n CityService" where
  "load_next Number text svc =
     (case parse Number text of
        Inl e \<Rightarrow> Inl e
      | Inr recs \<Rightarrow> Inr (svc\<lparr> cities := recs, loaded := True \<rparr>))"

definition getCoordinates :: "'n CityService \<Rightarrow> string \<Rightarrow> 'n Coordinates option" where
  "getCoordinates svc cityName =
     (case find (\<lambda>c. CityRecord.city c = toLowerCase cityName) (cities svc) of
        Some c \<Rightarrow> Some \<lparr> lat = CityRecord.lat c, lon = CityRecord.lon c \<rparr>
      | None \<Rightarrow> None)"

section \<open>WeatherComponent (src/app/weather/weather.component.ts)\<close>

text \<open>
  A number that arrives in JSON or is written in the source is a finite
  double; a number field holds its value as a \<open>real\<close>. The provider's
  response is an object that may lack \<open>current_weather\<close>; when the object is
  there it has the three fields of the provider's interface and any further
  ones (the record's extension).
\<close>

record CurrentWeather =
  temperature :: real
  windspeed :: real
  weathercode :: int

record 'x ProviderResponse =
  current_weather :: "'x CurrentWeather_scheme option"

text \<open>A \<open>current_weather\<close> object that carries a humidity as well.\<close>

record CurrentWeatherHumidity = CurrentWeather +
  humidity :: real

record WeatherData =
  city :: string
  temperature :: real
  condition :: string
  humidity :: real
  windSpeed :: real
  icon :: string

subsection \<open>Double arithmetic\<close>

text \<open>
  The result of an arithmetic operator is a double: a finite one, an
  infinity (\<open>Infinity True\<close> is \<open>+\<infinity>\<close>) or NaN. The sign of zero is not
  modelled. \<open>binade x\<close> is the power of two with \<open>binade x \<le> x < 2 * binade x\<close>
  for \<open>x > 0\<close>. \<open>to_double\<close> rounds a real to the nearest double, a tie to
  the one with the even significand: the spacing of the doubles around \<open>x\<close>
  is \<open>binade \<bar>x\<bar> / 2 ^ 52\<close>, and \<open>2 ^ -1074\<close> below \<open>2 ^ -1022\<close>; a result of
  magnitude \<open>2 ^ 1024\<close> or more is an infinity.
\<close>

datatype double = Finite real | Infinity bool | NaN







text \<open>
  \<open>Math.round\<close> gives the nearest integer, a half going up (to \<open>+\<infinity>\<close>); it
  is exact, and leaves an infinity and NaN as they are.
\<close>

fun Math_round :: "double \<Rightarrow> double" where
  "Math_round (Finite x) = Finite (of_int \<lfloor>x + 1 / 2\<rfloor>)"
| "Math_round (Infinity s) = Infinity s"
| "Math_round NaN = NaN"

text \<open>
  \<open>Math.floor\<close> of a finite number. The variant with the in-memory table
  applies it to products taken on the reals.
\<close>

definition Math_floor :: "real \<Rightarrow> int" where
  "Math_floor x = \<lfloor>x\<rfloor>"

text \<open>
  \<open>s.replace(/\s+/g, '-')\<close>: scanning from the left, every maximal run of
  white space becomes one hyphen, every other character is kept.
\<close>

function replace_whitespace :: "string \<Rightarrow> string" where
  "replace_whitespace [] = []"
| "replace_whitespace (c # cs) =
     (if isWhiteSpace c then CHR ''-'' # replace_whitespace (dropWhile isWhiteSpace cs)
      else c # replace_whitespace cs)"
  by pat_completeness auto
termination
  by (relation "measure length") (auto simp: length_dropWhile_le less_Suc_eq_le)

subsection \<open>The variant with the in-memory table (second component class)\<close>

text \<open>The icon literals are the bytes of the source file.\<close>

definition weatherDatabase :: "(string \<times> WeatherData) list" where
  "weatherDatabase =
     [(''london'', \<lparr> city = ''London'', temperature = 15, condition = ''Cloudy'',
          humidity = 75, windSpeed = 20,
          icon = [CHR 0xE2, CHR 0x98, CHR 0x81, CHR 0xEF, CHR 0xB8, CHR 0x8F] \<rparr>),
      (''new york'', \<lparr> city = ''New York'', temperature = 22, condition = ''Sunny'',
          humidity = 60, windSpeed = 15,
          icon = [CHR 0xE2, CHR 0x98, CHR 0x80, CHR 0xEF, CHR 0xB8, CHR 0x8F] \<rparr>),
      (''paris'', \<lparr> city = ''Paris'', temperature = 18, condition = ''Partly Cloudy'',
          humidity = 65, windSpeed = 12,
          icon = [CHR 0xE2, CHR 0x9B, CHR 0x85] \<rparr>),
      (''tokyo'', \<lparr> city = ''Tokyo'', temperature = 25, condition = ''Clear'',
          humidity = 55, windSpeed = 10,
          icon = [CHR 0xF0, CHR 0x9F, CHR 0x8C, CHR 0xA4, CHR 0xEF, CHR 0xB8, CHR 0x8F] \<rparr>),
      (''sydney'', \<lparr> city = ''Sydney'', temperature = 28, condition = ''Sunny'',
          humidity = 50, windSpeed = 18,
          icon = [CHR 0xE2, CHR 0x98, CHR 0x80, CHR 0xEF, CHR 0xB8, CHR 0x8F] \<rparr>),
      (''seattle'', \<lparr> city = ''Seattle'', temperature = 12, condition = ''Rainy'',
          humidity = 85, windSpeed = 25,
          icon = [CHR 0xF0, CHR 0x9F, CHR 0x8C, CHR 0xA7, CHR 0xEF, CHR 0xB8, CHR 0x8F] \<rparr>)]"

text \<open>
  \<open>weatherDatabase\<close> is an object literal, so a property read
  \<open>this.weatherDatabase[city]\<close> that finds no own property goes on to
  \<open>Object.prototype\<close>. These are the property names of \<open>Object.prototype\<close>;
  each holds a function or (for \<open>__proto__\<close>) an object, all of them truthy.
\<close>

definition Object_prototype_names :: "string list" where
  "Object_prototype_names =
     [''constructor'', ''__proto__'', ''hasOwnProperty'', ''isPrototypeOf'',
      ''propertyIsEnumerable'', ''toLocaleString'', ''toString'', ''valueOf'',
      ''__defineGetter__'', ''__defineSetter__'', ''__lookupGetter__'', ''__lookupSetter__'']"

datatype property = Own WeatherData | Inherited string | Undefined

definition weatherDatabase_get :: "string \<Rightarrow> property" where
  "weatherDatabase_get key =
     (case map_of weatherDatabase key of
        Some w \<Rightarrow> Own w
      | None \<Rightarrow> if key \<in> set Object_prototype_names then Inherited key else Undefined)"

text \<open>
  What the \<open>currentWeather\<close> signal of this variant can hold: \<open>null\<close>
  (\<open>None\<close>), a weather record, or the member of \<open>Object.prototype\<close> that the
  table read returned.
\<close>

datatype shown = Data WeatherData | Builtin string

record WeatherComponentMock =
  searchCity :: string
  isLoading :: bool
  currentWeather :: "shown option"

definition WeatherComponentMock_init :: WeatherComponentMock where
  "WeatherComponentMock_init = \<lparr> searchCity = [], isLoading = False, currentWeather = None \<rparr>"

definition mock_globe_icon :: string where
  "mock_globe_icon = [CHR 0xF0, CHR 0x9F, CHR 0x8C, CHR 0x8D]"

text \<open>
  \<open>searchWeather\<close> of this variant up to \<open>setTimeout\<close>: the component, and the
  \<open>city\<close> the pending timer callback has captured, if a timer was set.
\<close>

definition searchWeather_mock :: "WeatherComponentMock \<Rightarrow> WeatherComponentMock \<times> string option" where
  "searchWeather_mock c =
     (let city = trim (toLowerCase (WeatherComponentMock.searchCity c)) in
      if city = [] then (c, None)
      else (c\<lparr> WeatherComponentMock.isLoading := True \<rparr>, Some city))"

text \<open>
  The timer callback; \<open>key\<close> is the \<open>city\<close> it has captured. \<open>r1\<close>, \<open>r2\<close>, \<open>r3\<close> are the results of the three calls
  of \<open>Math.random()\<close>, in the order the object literal evaluates them.
\<close>

definition searchWeather_timeout ::
  "string \<Rightarrow> real \<Rightarrow> real \<Rightarrow> real \<Rightarrow> WeatherComponentMock \<Rightarrow> WeatherComponentMock" where
  "searchWeather_timeout key r1 r2 r3 c =
     (let weather = weatherDatabase_get key;
          c1 = (case weather of
                  Own w \<Rightarrow> c\<lparr> WeatherComponentMock.currentWeather := Some (Data w) \<rparr>
                | Inherited k \<Rightarrow> c\<lparr> WeatherComponentMock.currentWeather := Some (Builtin k) \<rparr>
                | Undefined \<Rightarrow>
                    c\<lparr> WeatherComponentMock.currentWeather := Some (Data
                         \<lparr> city = WeatherComponentMock.searchCity c,
                           temperature = of_int (Math_floor (r1 * 30)) + 10,
                           condition = ''Unknown'',
                           humidity = of_int (Math_floor (r2 * 40)) + 40,
                           windSpeed = of_int (Math_floor (r3 * 20)) + 5,
                           icon = mock_globe_icon \<rparr>) \<rparr>)
      in c1\<lparr> WeatherComponentMock.isLoading := False \<rparr>)"

subsection \<open>The variant with the weather provider (first component class)\<close>

definition weatherCodeMap :: "(int \<times> string) list" where
  "weatherCodeMap =
     [(0, ''Clear''), (1, ''Mainly Clear''), (2, ''Partly Cloudy''), (3, ''Cloudy''),
      (45, ''Fog''), (48, ''Rime Fog''), (51, ''Light Drizzle''), (53, ''Drizzle''),
      (61, ''Rainy''), (63, ''Heavy Rain''), (71, ''Snow''), (80, ''Rain Showers'')]"

text \<open>The icon literals are the bytes of the source file.\<close>

definition weatherIconMap :: "(int \<times> string) list" where
  "weatherIconMap =
     [(0, [CHR 0xC3, CHR 0xA2, CHR 0xCB, CHR 0x9C, CHR 0xE2, CHR 0x82, CHR 0xAC, CHR 0xC3, CHR 0xAF, CHR 0xC2, CHR 0xB8]),
      (1, [CHR 0xC4, CHR 0x9F, CHR 0xC5, CHR 0xB8, CHR 0xC5, CHR 0x92, CHR 0xC2, CHR 0xA4, CHR 0xC3, CHR 0xAF, CHR 0xC2, CHR 0xB8]),
      (2, [CHR 0xC3, CHR 0xA2, CHR 0xE2, CHR 0x80, CHR 0xBA, CHR 0xE2, CHR 0x80, CHR 0xA6]),
      (3, [CHR 0xC3, CHR 0xA2, CHR 0xCB, CHR 0x9C, CHR 0xC3, CHR 0xAF, CHR 0xC2, CHR 0xB8]),
      (45, [CHR 0xC4, CHR 0x9F, CHR 0xC5, CHR 0xB8, CHR 0xC5, CHR 0x92, CHR 0xC2, CHR 0xAB, CHR 0xC3, CHR 0xAF, CHR 0xC2, CHR 0xB8]),
      (48, [CHR 0xC4, CHR 0x9F, CHR 0xC5, CHR 0xB8, CHR 0xC5, CHR 0x92, CHR 0xC2, CHR 0xAB, CHR 0xC3, CHR 0xAF, CHR 0xC2, CHR 0xB8]),
      (51, [CHR 0xC4, CHR 0x9F, CHR 0xC5, CHR 0xB8, CHR 0xC5, CHR 0x92, CHR 0xC2, CHR 0xA6, CHR 0xC3, CHR 0xAF, CHR 0xC2, CHR 0xB8]),
      (61, [CHR 0xC4, CHR 0x9F, CHR 0xC5, CHR 0xB8, CHR 0xC5, CHR 0x92, CHR 0xC2, CHR 0xA7, CHR 0xC3, CHR 0xAF, CHR 0xC2, CHR 0xB8]),
      (71, [CHR 0xC3, CHR 0xA2, CHR 0xE2, CHR 0x80, CHR 0x9E, CHR 0xC3, CHR 0xAF, CHR 0xC2, CHR 0xB8]),
      (80, [CHR 0xC4, CHR 0x9F, CHR 0xC5, CHR 0xB8, CHR 0xC5, CHR 0x92, CHR 0xC2, CHR 0xA7, CHR 0xC3, CHR 0xAF, CHR 0xC2, CHR 0xB8])]"

text \<open>
  The icon literal of the \<open>next\<close> handler (line 116), as the source file has
  it. The globe U+1F30D, which the other variant writes in the same place,
  is \<open>mock_globe_icon\<close>.
\<close>

definition icon_literal :: string where
  "icon_literal = [CHR 0xC4, CHR 0x9F, CHR 0xC5, CHR 0xB8, CHR 0xC5, CHR 0x92]"

record WeatherComponent =
  searchCity :: string
  isLoading :: bool
  currentWeather :: "WeatherData option"

definition WeatherComponent_init :: WeatherComponent where
  "WeatherComponent_init = \<lparr> searchCity = [], isLoading = False, currentWeather = None \<rparr>"


definition weatherConditionClass :: "WeatherComponent \<Rightarrow> string" where
  "weatherConditionClass c =
     (case currentWeather c of
        None \<Rightarrow> []
      | Some weather \<Rightarrow> replace_whitespace (toLowerCase (condition weather)))"

text \<open>
  \<open>searchWeather\<close> up to \<open>subscribe\<close>: the component, and the coordinates of
  the one request it has sent, if it sent one.
\<close>

definition searchWeather :: "'n CityService \<Rightarrow> WeatherComponent \<Rightarrow> WeatherComponent \<times> 'n Coordinates option" where
  "searchWeather svc c =
     (let city = trim (toLowerCase (searchCity c)) in
      if city = [] then (c, None)
      else (case getCoordinates svc city of
              None \<Rightarrow> (c, None)
            | Some coords \<Rightarrow> (c\<lparr> isLoading := True \<rparr>, Some coords)))"

text \<open>
  The \<open>next\<close> handler. \<open>current.temperature\<close> throws a TypeError when
  \<open>res.current_weather\<close> is \<open>undefined\<close>; this is the first thing the argument
  of \<open>currentWeather.set\<close> evaluates after \<open>this.searchCity()\<close>, so nothing
  has been written when it throws. The weather code is an integer, so its
  property key in \<open>weatherCodeMap\<close> is its decimal numeral.
\<close>

definition searchWeather_next :: "'x ProviderResponse \<Rightarrow> WeatherComponent \<Rightarrow> error + WeatherComponent" where
  "searchWeather_next res c =
     (case current_weather res of
        None \<Rightarrow> Inl TypeError
      | Some current \<Rightarrow>
          Inr (c\<lparr> currentWeather := Some
                    \<lparr> city = searchCity c,
                      temperature = CurrentWeather.temperature current,
                      condition = (case map_of weatherCodeMap (weathercode current) of
                                     Some label \<Rightarrow> label
                                   | None \<Rightarrow> ''Unknown''),
                      humidity = 0,
                      windSpeed = windspeed current,
                      icon = icon_literal \<rparr>,
                 isLoading := False \<rparr>))"

definition searchWeather_error :: "WeatherComponent \<Rightarrow> WeatherComponent" where
  "searchWeather_error c = c\<lparr> isLoading := False \<rparr>"

text \<open>
  How the request settles: with a response, which runs the \<open>next\<close> handler,
  or with a transport failure, which runs the \<open>error\<close> handler. An exception
  thrown by the \<open>next\<close> handler is reported by the subscriber as unhandled;
  the \<open>error\<close> handler does not run for it, and the component stays as the
  handler left it.
\<close>

datatype 'x settlement = Response "'x ProviderResponse" | TransportFailure

definition settle :: "'x settlement \<Rightarrow> WeatherComponent \<Rightarrow> WeatherComponent" where
  "settle s c =
     (case s of
        Response res \<Rightarrow> (case searchWeather_next res c of Inl e \<Rightarrow> c | Inr c' \<Rightarrow> c')
      | TransportFailure \<Rightarrow> searchWeather_error c)"

definition onCityInput :: "string \<Rightarrow> WeatherComponent \<Rightarrow> WeatherComponent" where
  "onCityInput v c = c\<lparr> searchCity := v \<rparr>"

definition selectCity :: "'n CityService \<Rightarrow> string \<Rightarrow> WeatherComponent \<Rightarrow> WeatherComponent \<times> 'n Coordinates option" where
  "selectCity svc name c = searchWeather svc (c\<lparr> searchCity := name \<rparr>)"

section \<open>Definitions used to state the properties\<close>


text \<open>The rows of a dataset that reach the record-building callback of \<open>parse\<close>.\<close>

definition dataset_rows :: "string \<Rightarrow> string list" where
  "dataset_rows data = filter (\<lambda>line. line \<noteq> []) (map trim (drop 1 (js_split CHR 0x0A data)))"

text \<open>
  A label seen as words separated by gaps: \<open>weave [w0, w1, w2] [g0, g1]\<close> is
  \<open>w0 g0 w1 g1 w2\<close>. \<open>join_hyphen\<close> puts one hyphen between the words.
\<close>

fun weave :: "string list \<Rightarrow> string list \<Rightarrow> string" where
  "weave [] gs = []"
| "weave (w # ws) [] = w"
| "weave (w # ws) (g # gs) = w @ g @ weave ws gs"

fun join_hyphen :: "string list \<Rightarrow> string" where
  "join_hyphen [] = []"
| "join_hyphen [w] = w"
| "join_hyphen (w # ws) = w @ CHR ''-'' # join_hyphen ws"

text \<open>
  A dataset of a header and the row \<open>1;UK;london;51.5;-0.12;35\<close>, and the
  service it loads into when \<open>Number\<close> keeps the field's text.
\<close>

definition example_dataset :: string where
  "example_dataset =
     ''id;country;city;lat;lon;altitude'' @ [CHR 0x0A] @ ''1;UK;london;51.5;-0.12;35''"

definition example_service :: "string option CityService" where
  "example_service =
     \<lparr> cities = [\<lparr> id_field = ''1'', country = ''UK'', CityRecord.city = ''london'',
                     CityRecord.lat = Some ''51.5'', CityRecord.lon = Some ''-0.12'',
                     altitude = Some ''35'' \<rparr>],
       loaded = True \<rparr>"

text \<open>
  A dataset whose rows have three and eight fields, with a blank line between
  them and white space around the last row.
\<close>

definition ragged_dataset :: string where
  "ragged_dataset =
     ''id;country;city;lat;lon;altitude'' @ [CHR 0x0A] @ ''2;FR;Paris'' @ [CHR 0x0A] @
     ''  '' @ [CHR 0x0A] @ '' 3;DE;Berlin;52.5;13.4;34;x;y ''"

text \<open>
  The component after \<open>London\<close> has been typed, the response
  \<open>{current_weather: {temperature: 15, windspeed: 20, weathercode: 3}}\<close>, a
  response without \<open>current_weather\<close>, and a response whose
  \<open>current_weather\<close> has weather code 0 and a humidity of 80.
\<close>

definition london_component :: WeatherComponent where
  "london_component = onCityInput ''London'' WeatherComponent_init"

definition example_response :: "unit ProviderResponse" where
  "example_response =
     \<lparr> current_weather = Some \<lparr> CurrentWeather.temperature = 15, windspeed = 20, weathercode = 3 \<rparr> \<rparr>"

definition malformed_response :: "unit ProviderResponse" where
  "malformed_response = \<lparr> current_weather = None \<rparr>"

definition humid_response :: "unit CurrentWeatherHumidity_ext ProviderResponse" where
  "humid_response =
     \<lparr> current_weather = Some \<lparr> CurrentWeather.temperature = 21, windspeed = 7, weathercode = 0,
                                 CurrentWeatherHumidity.humidity = 80 \<rparr> \<rparr>"

text \<open>The end-to-end scenario: load the example dataset, type \<open>London\<close>, search, receive the example response.\<close>

definition london_scenario :: WeatherComponent where
  "london_scenario =
     settle (Response example_response) (fst (searchWeather example_service london_component))"

text \<open>A component whose record has a label with a tab and a space between its two words.\<close>

definition heavy_rain_component :: WeatherComponent where
  "heavy_rain_component =
     \<lparr> searchCity = ''Lima'', isLoading = False,
       currentWeather = Some \<lparr> city = ''Lima'', temperature = 18,
         condition = ''Heavy'' @ [CHR 0x09, CHR '' ''] @ ''Rain'', humidity = 0, windSpeed = 9,
         icon = icon_literal \<rparr> \<rparr>"




section \<open>Properties of CityService\<close>

lemmas string_defs = trim_def isWhiteSpace_def toLowerCase_def lower_char_def

lemma example_service_loaded:
  "load_next (\<lambda>x. x) example_dataset CityService_init = Inr example_service"
  by (simp add: load_next_def example_dataset_def example_service_def CityService_init_def
      parse_def parse_row_def element_def string_defs)



lemma lower_char_idem: "lower_char (lower_char c) = lower_char c"
  unfolding lower_char_def by (simp split: option.splits)

lemma toLowerCase_idem: "toLowerCase (toLowerCase s) = toLowerCase s"
  by (simp add: toLowerCase_def lower_char_idem)

lemma parse_row_city:
  "parse_row Number line = Inr r \<Longrightarrow> toLowerCase (CityRecord.city r) = CityRecord.city r"
  by (auto simp: parse_row_def Let_def toLowerCase_idem split: list.splits)


lemma map_throwing_Inr_iff: "map_throwing f xs = Inr ys \<longleftrightarrow> map f xs = map Inr ys"
proof (induction xs arbitrary: ys)
  case Nil
  then show ?case by auto
next
  case (Cons x xs)
  show ?case
  proof (cases "f x")
    case (Inl e)
    then show ?thesis by auto
  next
    case (Inr y)
    show ?thesis
    proof (cases "map_throwing f xs")
      case (Inl e)
      then have "map f xs \<noteq> map Inr zs" for zs using Cons.IH[of zs] by simp
      with Inl Inr show ?thesis by (auto simp: map_eq_Cons_conv)
    next
      case r: (Inr zs)
      then have "map f xs = map Inr zs" using Cons.IH by simp
      with r Inr show ?thesis by (auto simp: map_eq_Cons_conv inj_map_eq_map[OF inj_Inr])
    qed
  qed
qed

lemma parse_row_three:
  assumes "3 \<le> length (js_split CHR '';'' row)"
  shows "parse_row Number row =
     Inr \<lparr> id_field = js_split CHR '';'' row ! 0, country = js_split CHR '';'' row ! 1,
           CityRecord.city = toLowerCase (js_split CHR '';'' row ! 2),
           CityRecord.lat = Number (element (js_split CHR '';'' row) 3),
           CityRecord.lon = Number (element (js_split CHR '';'' row) 4),
           altitude = Number (element (js_split CHR '';'' row) 5) \<rparr>"
proof -
  from assms obtain i r1 where a: "js_split CHR '';'' row = i # r1"
    by (cases "js_split CHR '';'' row") auto
  with assms obtain co r2 where b: "r1 = co # r2"
    by (cases r1) auto
  with a assms obtain ci rest where c: "r2 = ci # rest"
    by (cases r2) auto
  from a b c show ?thesis by (simp add: parse_row_def Let_def)
qed

text \<open>A row of fewer than three fields, and only such a row, makes the callback throw.\<close>

lemma parse_row_short:
  "parse_row Number row = Inl TypeError \<longleftrightarrow> length (js_split CHR '';'' row) < 3"
  by (auto simp: parse_row_def Let_def split: list.splits)

lemma parse_short_row_throws:
  "parse (\<lambda>x. x) (''id;country;city;lat;lon;altitude'' @ [CHR 0x0A] @ ''2;FR'' @ [CHR 0x0A] @
      ''1;UK;london;51.5;-0.12;35'') = Inl TypeError"
  by (simp add: parse_def parse_row_def element_def string_defs)

lemma ragged_rows:
  "dataset_rows ragged_dataset = [''2;FR;Paris'', ''3;DE;Berlin;52.5;13.4;34;x;y'']"
  by (simp add: dataset_rows_def ragged_dataset_def string_defs)

subsection \<open>C1: what getCoordinates matches\<close>

lemma isWhiteSpace_lower_char: "isWhiteSpace (lower_char c) = isWhiteSpace c"
  unfolding lower_char_def isWhiteSpace_def by (simp split: option.splits)








subsection \<open>C3: rows that do not have six fields\<close>

text \<open>
  C3 as stated fails: \<open>parse\<close> checks no field count. A row of three fields
  adds a record, with \<open>Number(undefined)\<close> for the three numbers.
\<close>

theorem parse_three_field_row_counterexample:
  "length (js_split CHR '';'' ''2;FR;Paris'') = 3 \<and>
   parse (\<lambda>x. x) (''id;country;city;lat;lon;altitude'' @ [CHR 0x0A] @ ''2;FR;Paris'') =
     Inr [\<lparr> id_field = ''2'', country = ''FR'', CityRecord.city = ''paris'',
             CityRecord.lat = None, CityRecord.lon = None, altitude = None \<rparr>]"
  by (simp add: parse_def parse_row_def element_def string_defs)

text \<open>
  C3 (amended): the rows are not checked for six fields. When every row that
  is not blank splits on \<open>;\<close> into three fields or more, \<open>parse\<close> does not
  raise and each such row, in order, adds exactly one record: its first three
  fields are the id, the country and the lower-cased city, the fourth to
  sixth fields go through \<open>Number\<close> (\<open>Number(undefined)\<close> where the row is
  shorter), and fields beyond the sixth are ignored.
\<close>

theorem parse_keeps_rows_of_three_or_more_fields:
  assumes "\<forall>row\<in>set (dataset_rows data). 3 \<le> length (js_split CHR '';'' row)"
  shows "\<exists>recs. parse Number data = Inr recs \<and> length recs = length (dataset_rows data) \<and>
     (\<forall>i<length recs.
        recs ! i =
          \<lparr> id_field = js_split CHR '';'' (dataset_rows data ! i) ! 0,
            country = js_split CHR '';'' (dataset_rows data ! i) ! 1,
            CityRecord.city = toLowerCase (js_split CHR '';'' (dataset_rows data ! i) ! 2),
            CityRecord.lat = Number (element (js_split CHR '';'' (dataset_rows data ! i)) 3),
            CityRecord.lon = Number (element (js_split CHR '';'' (dataset_rows data ! i)) 4),
            altitude = Number (element (js_split CHR '';'' (dataset_rows data ! i)) 5) \<rparr>)"
proof -
  define build where "build = (\<lambda>row.
          \<lparr> id_field = js_split CHR '';'' row ! 0,
            country = js_split CHR '';'' row ! 1,
            CityRecord.city = toLowerCase (js_split CHR '';'' row ! 2),
            CityRecord.lat = Number (element (js_split CHR '';'' row) 3),
            CityRecord.lon = Number (element (js_split CHR '';'' row) 4),
            altitude = Number (element (js_split CHR '';'' row) 5) \<rparr>)"
  have "map (parse_row Number) (dataset_rows data) = map Inr (map build (dataset_rows data))"
    using assms by (simp add: parse_row_three build_def)
  then have "parse Number data = Inr (map build (dataset_rows data))"
    by (simp add: parse_def dataset_rows_def map_throwing_Inr_iff)
  then show ?thesis by (simp add: build_def)
qed

text \<open>The theorem at a dataset with a row of three and a row of eight fields.\<close>

theorem parse_keeps_rows_of_three_or_more_fields_witness:
  "dataset_rows ragged_dataset = [''2;FR;Paris'', ''3;DE;Berlin;52.5;13.4;34;x;y''] \<and>
   length (js_split CHR '';'' ''2;FR;Paris'') = 3 \<and>
   length (js_split CHR '';'' ''3;DE;Berlin;52.5;13.4;34;x;y'') = 8 \<and>
   parse (\<lambda>x. x) ragged_dataset =
     Inr [\<lparr> id_field = ''2'', country = ''FR'', CityRecord.city = ''paris'',
             CityRecord.lat = None, CityRecord.lon = None, altitude = None \<rparr>,
          \<lparr> id_field = ''3'', country = ''DE'', CityRecord.city = ''berlin'',
             CityRecord.lat = Some ''52.5'', CityRecord.lon = Some ''13.4'', altitude = Some ''34'' \<rparr>]"
proof -
  have l1: "length (js_split CHR '';'' ''2;FR;Paris'') = 3" by simp
  have l2: "length (js_split CHR '';'' ''3;DE;Berlin;52.5;13.4;34;x;y'') = 8" by simp
  have h: "\<forall>row\<in>set (dataset_rows ragged_dataset). 3 \<le> length (js_split CHR '';'' row)"
    unfolding ragged_rows using l1 l2 by simp
  from parse_keeps_rows_of_three_or_more_fields[OF h, of "\<lambda>x. x"] obtain recs where
    p: "parse (\<lambda>x. x) ragged_dataset = Inr recs" and n: "length recs = 2" and
    e: "\<forall>i<length recs. recs ! i =
          \<lparr> id_field = js_split CHR '';'' (dataset_rows ragged_dataset ! i) ! 0,
            country = js_split CHR '';'' (dataset_rows ragged_dataset ! i) ! 1,
            CityRecord.city = toLowerCase (js_split CHR '';'' (dataset_rows ragged_dataset ! i) ! 2),
            CityRecord.lat = element (js_split CHR '';'' (dataset_rows ragged_dataset ! i)) 3,
            CityRecord.lon = element (js_split CHR '';'' (dataset_rows ragged_dataset ! i)) 4,
            altitude = element (js_split CHR '';'' (dataset_rows ragged_dataset ! i)) 5 \<rparr>"
    unfolding ragged_rows by auto
  from n obtain a b where ab: "recs = [a, b]"
    by (cases recs; simp) (metis length_0_conv length_Suc_conv)
  from e n have "recs ! 0 = \<lparr> id_field = ''2'', country = ''FR'', CityRecord.city = ''paris'',
             CityRecord.lat = None, CityRecord.lon = None, altitude = None \<rparr>"
    unfolding ragged_rows by (simp add: element_def string_defs)
  moreover from e n have "recs ! 1 = \<lparr> id_field = ''3'', country = ''DE'', CityRecord.city = ''berlin'',
             CityRecord.lat = Some ''52.5'', CityRecord.lon = Some ''13.4'', altitude = Some ''34'' \<rparr>"
    unfolding ragged_rows by (simp add: element_def string_defs)
  ultimately show ?thesis using ab p l1 l2 ragged_rows by simp
qed

subsection \<open>C8: load is idempotent\<close>

text \<open>
  C8: when a first \<open>load\<close> on a service that is not loaded has completed
  (its one request was answered and the text parsed), a second \<open>load\<close>
  issues no request and leaves the service as it is, so one fetch and one
  parse happen in total and the directory holds what the single parse gave.
\<close>

theorem load_idempotent:
  assumes "\<not> loaded svc" and "load_next Number body (fst (load svc)) = Inr svc'"
  shows "snd (load svc) = 1 \<and> load svc' = (svc', 0) \<and> snd (load svc) + snd (load svc') = 1 \<and>
         parse Number body = Inr (cities svc') \<and> loaded svc'"
  using assms by (auto simp: load_def load_next_def split: sum.splits)

text \<open>The theorem at the initial service and the example dataset.\<close>

theorem load_idempotent_witness:
  "\<not> loaded (CityService_init :: string option CityService) \<and>
   load_next (\<lambda>x. x) example_dataset (fst (load CityService_init)) = Inr example_service \<and>
   snd (load (CityService_init :: string option CityService)) = 1 \<and>
   load example_service = (example_service, 0) \<and>
   parse (\<lambda>x. x) example_dataset = Inr (cities example_service)"
proof -
  have a: "\<not> loaded (CityService_init :: string option CityService)"
    by (simp add: CityService_init_def)
  have b: "load_next (\<lambda>x. x) example_dataset (fst (load CityService_init)) = Inr example_service"
    using example_service_loaded by (simp add: load_def)
  from load_idempotent[OF a b] a b show ?thesis by simp
qed

section \<open>Properties of WeatherComponent\<close>

lemma london_search:
  "searchWeather example_service london_component =
     (london_component\<lparr> isLoading := True \<rparr>, Some \<lparr> lat = Some ''51.5'', lon = Some ''-0.12'' \<rparr>)"
  by (simp add: searchWeather_def getCoordinates_def london_component_def onCityInput_def
      WeatherComponent_init_def example_service_def string_defs)

text \<open>A search that sends a request has set the busy indicator and changed nothing else.\<close>

lemma searchWeather_sent:
  assumes "searchWeather svc c = (c1, Some coords)"
  shows "c1 = c\<lparr> isLoading := True \<rparr>"
  using assms by (auto simp: searchWeather_def Let_def split: if_splits option.splits)

lemma searchWeather_not_sent:
  assumes "searchWeather svc c = (c1, None)"
  shows "c1 = c"
  using assms by (auto simp: searchWeather_def Let_def split: if_splits option.splits)

lemma london_scenario_eq:
  "london_scenario = \<lparr> searchCity = ''London'', isLoading = False, currentWeather = Some
     \<lparr> city = ''London'', temperature = 15, condition = ''Cloudy'', humidity = 0, windSpeed = 20,
       icon = icon_literal \<rparr> \<rparr>"
  unfolding london_scenario_def london_search
  by (simp add: settle_def searchWeather_next_def example_response_def weatherCodeMap_def
      london_component_def onCityInput_def WeatherComponent_init_def)




lemma london_scenario_search:
  "searchWeather example_service london_scenario =
     (london_scenario\<lparr> isLoading := True \<rparr>, Some \<lparr> lat = Some ''51.5'', lon = Some ''-0.12'' \<rparr>)"
  unfolding london_scenario_eq
  by (simp add: searchWeather_def getCoordinates_def example_service_def string_defs)

lemma Math_round_eq_round: "Math_round (Finite x) = Finite (of_int (round x))"
  by (simp add: round_def)

subsection \<open>C2: the busy indicator after a response without current_weather\<close>

text \<open>
  C2 fails on the code at a response that lacks \<open>current_weather\<close>: the search
  for \<open>London\<close> sets the busy indicator, the \<open>next\<close> handler throws a
  TypeError before it reaches \<open>isLoading.set(false)\<close>, and the busy indicator
  stays set. (On a transport failure it is cleared, see C5.)
\<close>

theorem searchWeather_malformed_payload_keeps_loading:
  "searchWeather example_service london_component =
     (london_component\<lparr> isLoading := True \<rparr>, Some \<lparr> lat = Some ''51.5'', lon = Some ''-0.12'' \<rparr>) \<and>
   searchWeather_next malformed_response (london_component\<lparr> isLoading := True \<rparr>) = Inl TypeError \<and>
   settle (Response malformed_response) (london_component\<lparr> isLoading := True \<rparr>) =
     london_component\<lparr> isLoading := True \<rparr> \<and>
   isLoading (settle (Response malformed_response) (fst (searchWeather example_service london_component)))"
  by (simp add: london_search) (simp add: settle_def searchWeather_next_def malformed_response_def)

subsection \<open>C4: the record a response publishes\<close>




subsection \<open>C5: a transport failure\<close>

text \<open>
  C5: when a search has sent its request and the request fails, the component
  ends as it was before the search but for the busy indicator, which is
  cleared: no record is published, the record published before (if any) is
  still there, and the \<open>error\<close> handler changes the busy indicator only.
\<close>

theorem searchWeather_transport_failure_frame:
  assumes "searchWeather svc c = (c1, Some coords)"
  shows "settle (TransportFailure :: 'x settlement) c1 = c\<lparr> isLoading := False \<rparr> \<and>
         currentWeather (settle (TransportFailure :: 'x settlement) c1) = currentWeather c \<and>
         \<not> isLoading (settle (TransportFailure :: 'x settlement) c1) \<and>
         searchWeather_error c1 = c1\<lparr> isLoading := False \<rparr>"
  using searchWeather_sent[OF assms] by (simp add: settle_def searchWeather_error_def)

text \<open>The theorem at a second search for \<open>London\<close>, started with the record of the first on display.\<close>

theorem searchWeather_transport_failure_frame_witness:
  "searchWeather example_service london_scenario =
     (london_scenario\<lparr> isLoading := True \<rparr>, Some \<lparr> lat = Some ''51.5'', lon = Some ''-0.12'' \<rparr>) \<and>
   currentWeather (settle (TransportFailure :: unit settlement) (london_scenario\<lparr> isLoading := True \<rparr>)) =
     Some \<lparr> city = ''London'', temperature = 15, condition = ''Cloudy'', humidity = 0, windSpeed = 20,
            icon = icon_literal \<rparr> \<and>
   \<not> isLoading (settle (TransportFailure :: unit settlement) (london_scenario\<lparr> isLoading := True \<rparr>))"
  using searchWeather_transport_failure_frame[where ?'x = unit, OF london_scenario_search]
    london_scenario_search
  by (simp add: london_scenario_eq)

subsection \<open>C6: the Fahrenheit value\<close>






subsection \<open>C7: the CSS slug\<close>

lemma toLowerCase_append: "toLowerCase (xs @ ys) = toLowerCase xs @ toLowerCase ys"
  by (simp add: toLowerCase_def)

lemma toLowerCase_no_space:
  "(\<forall>c\<in>set (toLowerCase w). \<not> isWhiteSpace c) = (\<forall>c\<in>set w. \<not> isWhiteSpace c)"
  by (simp add: toLowerCase_def isWhiteSpace_lower_char)

lemma toLowerCase_all_space:
  "(\<forall>c\<in>set (toLowerCase g). isWhiteSpace c) = (\<forall>c\<in>set g. isWhiteSpace c)"
  by (simp add: toLowerCase_def isWhiteSpace_lower_char)

lemma toLowerCase_Nil_iff: "toLowerCase s = [] \<longleftrightarrow> s = []"
  by (simp add: toLowerCase_def)

text \<open>A word is copied; a gap before a word, or at the end, becomes one hyphen.\<close>

lemma replace_whitespace_word:
  "\<forall>c\<in>set w. \<not> isWhiteSpace c \<Longrightarrow> replace_whitespace (w @ rest) = w @ replace_whitespace rest"
  by (induction w) auto

lemma replace_whitespace_gap:
  assumes "g \<noteq> []" and "\<forall>c\<in>set g. isWhiteSpace c" and "rest = [] \<or> \<not> isWhiteSpace (hd rest)"
  shows "replace_whitespace (g @ rest) = CHR ''-'' # replace_whitespace rest"
proof -
  from assms(1) obtain c g' where g: "g = c # g'" by (cases g) auto
  have "dropWhile isWhiteSpace (g' @ rest) = dropWhile isWhiteSpace rest"
    using assms(2) g by simp
  also have "\<dots> = rest" using assms(3) by (cases rest) auto
  finally show ?thesis using assms(2) g by simp
qed

lemma weave_head:
  assumes "ws \<noteq> []" and "\<forall>w\<in>set ws. w \<noteq> [] \<and> (\<forall>c\<in>set w. \<not> isWhiteSpace c)"
  shows "weave ws gs \<noteq> [] \<and> \<not> isWhiteSpace (hd (weave ws gs))"
proof -
  from assms(1) obtain w ws' where ws: "ws = w # ws'" by (cases ws) auto
  with assms(2) have w: "w \<noteq> []" "\<not> isWhiteSpace (hd w)" by auto
  show ?thesis using ws w by (cases gs) auto
qed

lemma replace_whitespace_weave:
  assumes "length ws = Suc (length gs)"
    and "\<forall>w\<in>set ws. w \<noteq> [] \<and> (\<forall>c\<in>set w. \<not> isWhiteSpace c)"
    and "\<forall>g\<in>set gs. g \<noteq> [] \<and> (\<forall>c\<in>set g. isWhiteSpace c)"
  shows "replace_whitespace (weave ws gs) = join_hyphen ws"
  using assms
proof (induction ws gs rule: weave.induct)
  case (1 gs)
  then show ?case by simp
next
  case (2 w ws)
  then have "ws = []" by simp
  with 2 show ?case using replace_whitespace_word[of w "[]"] by simp
next
  case (3 w ws g gs)
  then have ne: "ws \<noteq> []" by auto
  then obtain w' ws' where ws: "ws = w' # ws'" by (cases ws) auto
  have hd: "weave ws gs \<noteq> [] \<and> \<not> isWhiteSpace (hd (weave ws gs))"
    using weave_head[OF ne] 3(3) by simp
  have IH: "replace_whitespace (weave ws gs) = join_hyphen ws"
    using 3 by simp
  have "replace_whitespace (weave (w # ws) (g # gs)) = w @ replace_whitespace (g @ weave ws gs)"
    using 3(3) by (simp add: replace_whitespace_word)
  also have "\<dots> = w @ CHR ''-'' # replace_whitespace (weave ws gs)"
    using replace_whitespace_gap[of g "weave ws gs"] 3(4) hd by simp
  also have "\<dots> = join_hyphen (w # ws)" using IH ws by simp
  finally show ?case .
qed

lemma toLowerCase_weave:
  "toLowerCase (weave ws gs) = weave (map toLowerCase ws) (map toLowerCase gs)"
  by (induction ws gs rule: weave.induct) (simp_all add: toLowerCase_append, simp add: toLowerCase_def)

text \<open>
  C7: with a record published whose label is words separated by runs of white
  space (each word without white space and not empty, each run not empty),
  \<open>weatherConditionClass\<close> is the lower-cased words with one hyphen between
  neighbours, whatever the length of each run: \<open>partly-cloudy\<close> for
  \<open>Partly Cloudy\<close>, \<open>clear\<close> for \<open>Clear\<close>, \<open>rime-fog\<close> for \<open>Rime\<close> and
  \<open>Fog\<close> three spaces apart. With no record it is the empty string.
\<close>

theorem weatherConditionClass_slug:
  assumes "currentWeather c = Some weather" and "condition weather = weave ws gs"
    and "length ws = Suc (length gs)"
    and "\<forall>w\<in>set ws. w \<noteq> [] \<and> (\<forall>c\<in>set w. \<not> isWhiteSpace c)"
    and "\<forall>g\<in>set gs. g \<noteq> [] \<and> (\<forall>c\<in>set g. isWhiteSpace c)"
  shows "weatherConditionClass c = join_hyphen (map toLowerCase ws) \<and>
         weatherConditionClass (c\<lparr> currentWeather := None \<rparr>) = [] \<and>
         weatherConditionClass (c\<lparr> currentWeather := Some (weather\<lparr> condition := ''Partly Cloudy'' \<rparr>) \<rparr>) = ''partly-cloudy'' \<and>
         weatherConditionClass (c\<lparr> currentWeather := Some (weather\<lparr> condition := ''Clear'' \<rparr>) \<rparr>) = ''clear'' \<and>
         weatherConditionClass (c\<lparr> currentWeather := Some (weather\<lparr> condition := ''Rime   Fog'' \<rparr>) \<rparr>) = ''rime-fog''"
proof -
  have "replace_whitespace (weave (map toLowerCase ws) (map toLowerCase gs)) =
          join_hyphen (map toLowerCase ws)"
    using assms(3-5)
    by (intro replace_whitespace_weave)
       (simp_all add: toLowerCase_Nil_iff toLowerCase_no_space toLowerCase_all_space)
  then have "weatherConditionClass c = join_hyphen (map toLowerCase ws)"
    using assms(1,2) by (simp add: weatherConditionClass_def toLowerCase_weave)
  moreover have "weatherConditionClass (c\<lparr> currentWeather := None \<rparr>) = []"
    by (simp add: weatherConditionClass_def)
  moreover have "weatherConditionClass (c\<lparr> currentWeather := Some (weather\<lparr> condition := ''Partly Cloudy'' \<rparr>) \<rparr>) = ''partly-cloudy''"
    by (simp add: weatherConditionClass_def string_defs)
  moreover have "weatherConditionClass (c\<lparr> currentWeather := Some (weather\<lparr> condition := ''Clear'' \<rparr>) \<rparr>) = ''clear''"
    by (simp add: weatherConditionClass_def string_defs)
  moreover have "weatherConditionClass (c\<lparr> currentWeather := Some (weather\<lparr> condition := ''Rime   Fog'' \<rparr>) \<rparr>) = ''rime-fog''"
    by (simp add: weatherConditionClass_def string_defs)
  ultimately show ?thesis by blast
qed

text \<open>The theorem at a label whose two words are a tab and a space apart.\<close>

theorem weatherConditionClass_slug_witness:
  "currentWeather heavy_rain_component =
     Some \<lparr> city = ''Lima'', temperature = 18,
         condition = ''Heavy'' @ [CHR 0x09, CHR '' ''] @ ''Rain'', humidity = 0, windSpeed = 9,
         icon = icon_literal \<rparr> \<and>
   weave [''Heavy'', ''Rain''] [[CHR 0x09, CHR '' '']] = ''Heavy'' @ [CHR 0x09, CHR '' ''] @ ''Rain'' \<and>
   weatherConditionClass heavy_rain_component = ''heavy-rain''"
proof -
  let ?w = "\<lparr> city = ''Lima'', temperature = 18,
         condition = ''Heavy'' @ [CHR 0x09, CHR '' ''] @ ''Rain'', humidity = 0, windSpeed = 9,
         icon = icon_literal \<rparr>"
  have a: "currentWeather heavy_rain_component = Some ?w"
    by (simp add: heavy_rain_component_def)
  have b: "condition ?w = weave [''Heavy'', ''Rain''] [[CHR 0x09, CHR '' '']]" by simp
  have c: "length [''Heavy'', ''Rain''] = Suc (length [[CHR 0x09, CHR '' '']])" by simp
  have d: "\<forall>w\<in>set [''Heavy'', ''Rain'']. w \<noteq> [] \<and> (\<forall>c\<in>set w. \<not> isWhiteSpace c)"
    by (simp add: isWhiteSpace_def)
  have e: "\<forall>g\<in>set [[CHR 0x09, CHR '' '']]. g \<noteq> [] \<and> (\<forall>c\<in>set g. isWhiteSpace c)"
    by (simp add: isWhiteSpace_def)
  from weatherConditionClass_slug[OF a b c d e]
  have "weatherConditionClass heavy_rain_component = join_hyphen (map toLowerCase [''Heavy'', ''Rain''])"
    by simp
  then have "weatherConditionClass heavy_rain_component = ''heavy-rain''"
    by (simp add: string_defs)
  with a show ?thesis by simp
qed

subsection \<open>C10: icon and humidity of a published record\<close>

text \<open>
  Every record the \<open>next\<close> handler publishes has the literal of line 116 as
  icon and humidity 0, for every weather code and whatever else the
  response's \<open>current_weather\<close> carries (a humidity, say); the icon is never
  the entry of \<open>weatherIconMap\<close> for the code, and no function of the
  component reads \<open>weatherIconMap\<close>.
\<close>

lemma next_handler_icon_and_humidity:
  assumes "current_weather res = Some current"
  shows "\<exists>w. currentWeather (settle (Response res) c) = Some w \<and>
             icon w = [CHR 0xC4, CHR 0x9F, CHR 0xC5, CHR 0xB8, CHR 0xC5, CHR 0x92] \<and>
             humidity w = 0 \<and> map_of weatherIconMap (weathercode current) \<noteq> Some (icon w)"
proof -
  have "icon_literal \<notin> snd ` set weatherIconMap"
    by (simp add: weatherIconMap_def icon_literal_def)
  then have "map_of weatherIconMap k \<noteq> Some icon_literal" for k
    by (metis map_of_SomeD image_eqI snd_conv)
  then show ?thesis using assms
    by (simp add: settle_def searchWeather_next_def) (simp add: icon_literal_def)
qed

lemma next_handler_icon_and_humidity_example:
  "current_weather humid_response =
     Some \<lparr> CurrentWeather.temperature = 21, windspeed = 7, weathercode = 0,
            CurrentWeatherHumidity.humidity = 80 \<rparr> \<and>
   currentWeather (settle (Response humid_response) london_component) =
     Some \<lparr> city = ''London'', temperature = 21, condition = ''Clear'', humidity = 0, windSpeed = 7,
            icon = [CHR 0xC4, CHR 0x9F, CHR 0xC5, CHR 0xB8, CHR 0xC5, CHR 0x92] \<rparr> \<and>
   map_of weatherIconMap 0 \<noteq> Some [CHR 0xC4, CHR 0x9F, CHR 0xC5, CHR 0xB8, CHR 0xC5, CHR 0x92]"
  by (simp add: settle_def searchWeather_next_def humid_response_def weatherCodeMap_def
      weatherIconMap_def icon_literal_def london_component_def onCityInput_def
      WeatherComponent_init_def)

text \<open>
  C10 fails on the code in its icon: the literal the \<open>next\<close> handler writes is
  not the globe character. In the London scenario the published icon is the
  string of the six bytes C4 9F C5 B8 C5 92, the text of a wrongly decoded
  globe with its last byte lost, while the globe U+1F30D is the four bytes
  F0 9F 8C 8D, which the other variant writes in the same place. The
  humidity of the record is 0.
\<close>

theorem searchWeather_icon_is_not_the_globe:
  "map_option icon (currentWeather london_scenario) =
     Some [CHR 0xC4, CHR 0x9F, CHR 0xC5, CHR 0xB8, CHR 0xC5, CHR 0x92] \<and>
   mock_globe_icon = [CHR 0xF0, CHR 0x9F, CHR 0x8C, CHR 0x8D] \<and>
   map_option icon (currentWeather london_scenario) \<noteq> Some mock_globe_icon \<and>
   map_option humidity (currentWeather london_scenario) = Some 0"
  by (simp add: london_scenario_eq icon_literal_def mock_globe_icon_def)

section \<open>Properties of the variant with the in-memory table\<close>

lemma floor_scaled_bounds:
  assumes "0 \<le> r" and "r < 1" and "0 < n"
  shows "0 \<le> Math_floor (r * of_int n) \<and> Math_floor (r * of_int n) \<le> n - 1"
proof -
  have "0 \<le> r * of_int n" using assms by simp
  then have a: "0 \<le> Math_floor (r * of_int n)" by (simp add: Math_floor_def)
  have "r * of_int n < of_int n" using assms by simp
  then have "Math_floor (r * of_int n) < n" by (simp add: Math_floor_def floor_less_iff)
  with a show ?thesis by simp
qed

text \<open>
  When the table read gives \<open>undefined\<close> and each \<open>Math.random()\<close> is in
  \<open>[0, 1)\<close>, the synthesized record has the label \<open>Unknown\<close>, a temperature
  from 10 to 39, a humidity from 40 to 79 and a wind speed from 5 to 24.
\<close>

lemma mock_miss_bounds:
  assumes "weatherDatabase_get key = Undefined"
    and "0 \<le> r1" "r1 < 1" "0 \<le> r2" "r2 < 1" "0 \<le> r3" "r3 < 1"
  shows "\<exists>w. WeatherComponentMock.currentWeather (searchWeather_timeout key r1 r2 r3 c) = Some (Data w) \<and>
           condition w = ''Unknown'' \<and>
           10 \<le> temperature w \<and> temperature w \<le> 39 \<and>
           40 \<le> humidity w \<and> humidity w \<le> 79 \<and>
           5 \<le> windSpeed w \<and> windSpeed w \<le> 24"
proof -
  have t: "0 \<le> Math_floor (r1 * 30) \<and> Math_floor (r1 * 30) \<le> 29"
    using floor_scaled_bounds[of r1 30] assms by simp
  have h: "0 \<le> Math_floor (r2 * 40) \<and> Math_floor (r2 * 40) \<le> 39"
    using floor_scaled_bounds[of r2 40] assms by simp
  have w: "0 \<le> Math_floor (r3 * 20) \<and> Math_floor (r3 * 20) \<le> 19"
    using floor_scaled_bounds[of r3 20] assms by simp
  have "real_of_int (Math_floor (r1 * 30)) \<le> 29" "0 \<le> real_of_int (Math_floor (r1 * 30))"
       "real_of_int (Math_floor (r2 * 40)) \<le> 39" "0 \<le> real_of_int (Math_floor (r2 * 40))"
       "real_of_int (Math_floor (r3 * 20)) \<le> 19" "0 \<le> real_of_int (Math_floor (r3 * 20))"
    using t h w by linarith+
  then show ?thesis using assms(1)
    by (simp add: searchWeather_timeout_def)
qed

subsection \<open>C9: a name that the table object inherits\<close>

text \<open>
  C9 fails on the code at the name \<open>constructor\<close>: it is not a key of the
  table, yet the read \<open>this.weatherDatabase[city]\<close> returns the inherited
  \<open>Object.prototype.constructor\<close>, which is truthy, so the timer callback
  publishes that function and no synthesized record with the label
  \<open>Unknown\<close>, for every outcome of \<open>Math.random()\<close>.
\<close>

theorem mock_search_constructor_publishes_builtin:
  "searchWeather_mock (WeatherComponentMock_init\<lparr> WeatherComponentMock.searchCity := ''constructor'' \<rparr>) =
     (WeatherComponentMock_init\<lparr> WeatherComponentMock.searchCity := ''constructor'',
          WeatherComponentMock.isLoading := True \<rparr>, Some ''constructor'') \<and>
   map_of weatherDatabase ''constructor'' = None \<and>
   WeatherComponentMock.currentWeather (searchWeather_timeout ''constructor'' r1 r2 r3 c) =
     Some (Builtin ''constructor'')"
  by (simp add: searchWeather_mock_def Let_def WeatherComponentMock_init_def string_defs
      searchWeather_timeout_def weatherDatabase_get_def weatherDatabase_def Object_prototype_names_def)

end
